theory Spec2Isabelle
  imports Complex_Main "HOL-Library.Multiset"
begin

section \<open>Instants and the calendar operations of the Date object\<close>

text \<open>
  A JavaScript \<open>Date\<close> holds a time value: milliseconds since 1970-01-01T00:00:00Z.
  The pages read and build dates in local time. The local zone is a fixed offset
  \<open>tza\<close> (milliseconds east of UTC, the LocalTZA of ECMAScript); daylight-saving
  transitions and invalid dates (NaN time values) are outside the model. The calendar
  is the proleptic Gregorian one, computed on day numbers.
\<close>

type_synonym instant = int

definition msPerDay :: int where
  "msPerDay = 86400000"

definition Day :: "int \<Rightarrow> int" where
  "Day t = t div msPerDay"

definition TimeWithinDay :: "int \<Rightarrow> int" where
  "TimeWithinDay t = t mod msPerDay"

definition WeekDay :: "int \<Rightarrow> int" where
  "WeekDay t = (Day t + 4) mod 7"

text \<open>Day number of the civil date year/month/day, month in 1..12, day counted from 1.\<close>

definition days_from_civil :: "int \<Rightarrow> int \<Rightarrow> int \<Rightarrow> int" where
  "days_from_civil y m d =
     (let y' = (if m \<le> 2 then y - 1 else y);
          era = y' div 400;
          yoe = y' - era * 400;
          doy = (153 * (if m > 2 then m - 3 else m + 9) + 2) div 5 + d - 1;
          doe = yoe * 365 + yoe div 4 - yoe div 100 + doy
      in era * 146097 + doe - 719468)"

text \<open>
  The civil date (year, month in 1..12, day of month) of a day number: the day within
  its 400-year era is split into centuries (\<open>c\<close>), 4-year cycles (\<open>q\<close>), years
  (\<open>k\<close>) and the day of the year counted from March 1 (\<open>doy\<close>); the last day of an
  era and of a cycle belongs to the century and the year before it.
\<close>

definition civil_from_days :: "int \<Rightarrow> int \<times> int \<times> int" where
  "civil_from_days z =
     (let z' = z + 719468;
          era = z' div 146097;
          doe = z' mod 146097;
          c = min (doe div 36524) 3;
          r1 = doe - c * 36524;
          q = r1 div 1461;
          r2 = r1 mod 1461;
          k = min (r2 div 365) 3;
          doy = r2 - k * 365;
          y = era * 400 + c * 100 + q * 4 + k;
          mp = (5 * doy + 2) div 153;
          d = doy - (153 * mp + 2) div 5 + 1;
          m = (if mp < 10 then mp + 3 else mp - 9)
      in (if m \<le> 2 then y + 1 else y, m, d))"

definition YearFromTime :: "int \<Rightarrow> int" where
  "YearFromTime t = fst (civil_from_days (Day t))"

text \<open>Months are numbered from 0 (January) to 11, as \<open>getMonth\<close> returns them.\<close>

definition MonthFromTime :: "int \<Rightarrow> int" where
  "MonthFromTime t = fst (snd (civil_from_days (Day t))) - 1"

definition DateFromTime :: "int \<Rightarrow> int" where
  "DateFromTime t = snd (snd (civil_from_days (Day t)))"

text \<open>
  \<open>MakeDay\<close> accepts any month and day number: a month outside 0..11 carries into
  the year, a day outside the month carries into the neighbouring months.
\<close>

definition MakeDay :: "int \<Rightarrow> int \<Rightarrow> int \<Rightarrow> int" where
  "MakeDay y m d = days_from_civil (y + m div 12) (m mod 12 + 1) 1 + d - 1"

definition MakeTime :: "int \<Rightarrow> int \<Rightarrow> int \<Rightarrow> int \<Rightarrow> int" where
  "MakeTime h mi s ms = h * 3600000 + mi * 60000 + s * 1000 + ms"

definition MakeDate :: "int \<Rightarrow> int \<Rightarrow> int" where
  "MakeDate day time = day * msPerDay + time"

definition LocalTime :: "int \<Rightarrow> instant \<Rightarrow> int" where
  "LocalTime tza t = t + tza"

definition UTC :: "int \<Rightarrow> int \<Rightarrow> instant" where
  "UTC tza t = t - tza"

definition getFullYear :: "int \<Rightarrow> instant \<Rightarrow> int" where
  "getFullYear tza t = YearFromTime (LocalTime tza t)"

definition getMonth :: "int \<Rightarrow> instant \<Rightarrow> int" where
  "getMonth tza t = MonthFromTime (LocalTime tza t)"

definition getDate :: "int \<Rightarrow> instant \<Rightarrow> int" where
  "getDate tza t = DateFromTime (LocalTime tza t)"

definition getDay :: "int \<Rightarrow> instant \<Rightarrow> int" where
  "getDay tza t = WeekDay (LocalTime tza t)"

text \<open>\<open>new Date(y, m, d, h, mi, s, ms)\<close>: local fields; a year in 0..99 means 1900 + year.\<close>

definition newDate :: "int \<Rightarrow> int \<Rightarrow> int \<Rightarrow> int \<Rightarrow> int \<Rightarrow> int \<Rightarrow> int \<Rightarrow> int \<Rightarrow> instant" where
  "newDate tza y m d h mi s ms =
     UTC tza (MakeDate (MakeDay (if 0 \<le> y \<and> y \<le> 99 then 1900 + y else y) m d)
                       (MakeTime h mi s ms))"

text \<open>\<open>date.setDate(d)\<close> and \<open>date.setHours(h, mi, s, ms)\<close>: the new time value.\<close>

definition setDate :: "int \<Rightarrow> instant \<Rightarrow> int \<Rightarrow> instant" where
  "setDate tza t d =
     (let lt = LocalTime tza t
      in UTC tza (MakeDate (MakeDay (YearFromTime lt) (MonthFromTime lt) d) (TimeWithinDay lt)))"

definition setHours :: "int \<Rightarrow> instant \<Rightarrow> int \<Rightarrow> int \<Rightarrow> int \<Rightarrow> int \<Rightarrow> instant" where
  "setHours tza t h mi s ms =
     UTC tza (MakeDate (Day (LocalTime tza t)) (MakeTime h mi s ms))"

text \<open>
  \<open>toDateString\<close> prints weekday, month, day of month and year; two dates print the
  same string exactly when these four fields agree, so the fields stand for the string.
\<close>

definition toDateString :: "int \<Rightarrow> instant \<Rightarrow> int \<times> int \<times> int \<times> int" where
  "toDateString tza t = (getDay tza t, getMonth tza t, getDate tza t, getFullYear tza t)"

text \<open>The local day number of the Sunday on or before the local day of an instant.\<close>

definition sunday_of :: "int \<Rightarrow> instant \<Rightarrow> int" where
  "sunday_of tza t = Day (LocalTime tza t) - WeekDay (LocalTime tza t)"

section \<open>Numbers\<close>

text \<open>
  Quantities are integers and amounts are rationals: arithmetic is exact, where the
  program computes in binary floating point, and the constants 1.1, 0.9, 1.2 and 0.5
  are the decimal fractions themselves. \<open>valor % 1\<close> keeps the sign of \<open>valor\<close>.
\<close>

definition js_rem1 :: "rat \<Rightarrow> rat" where
  "js_rem1 v = (if 0 \<le> v then frac v else - frac (- v))"

definition Math_floor :: "rat \<Rightarrow> rat" where
  "Math_floor v = of_int \<lfloor>v\<rfloor>"

definition Math_ceil :: "rat \<Rightarrow> rat" where
  "Math_ceil v = of_int \<lceil>v\<rceil>"

section \<open>Reports: custom rounding\<close>

definition arredondamentoPersonalizado :: "rat \<Rightarrow> rat" where
  "arredondamentoPersonalizado valor =
     (if valor < 1 then 1
      else let parteDecimal = js_rem1 valor;
               parteInteira = Math_floor valor
           in if parteDecimal \<ge> 0.5 then parteInteira + 1 else parteInteira)"

section \<open>Sales, products and the analysis record\<close>

text \<open>
  Modelled from the spec: the declarations of \<open>Sale\<close> and \<open>Product\<close> (imported from
  \<open>../types\<close>) are not among the sources. The fields are those of the spec's data model
  that the pages read; a sale item's quantity is an integer, as the data model has it;
  \<open>created_at\<close> is the instant its timestamp string denotes. \<open>sale_id\<close> and \<open>prod_id\<close>
  are the \<open>id\<close> fields, \<open>stock_quantity\<close> is the product's \<open>quantity\<close>.
\<close>

record sale_item =
  product_id :: string
  quantity :: int
  price_at_sale :: rat

record sale =
  sale_id :: string
  created_at :: instant
  total :: rat
  payment_method :: string
  sale_items :: "sale_item list"

record product =
  prod_id :: string
  name :: string
  category :: string
  selling_price :: rat
  cost_price :: rat
  stock_quantity :: int
  min_stock_level :: int

datatype tendencia_t = subindo | estavel | descendo

record ConsumoAnalise =
  produto :: string
  consumo_diario :: rat
  consumo_semanal :: rat
  consumo_mensal :: rat
  quantidade_sugerida :: rat
  tendencia :: tendencia_t

section \<open>Reports: time filter and consumption analysis\<close>

text \<open>\<open>now\<close> is the clock reading of \<open>new Date()\<close>; \<open>timeFilter\<close> is the selected period.\<close>

definition filterSalesByTime :: "int \<Rightarrow> instant \<Rightarrow> string \<Rightarrow> sale list \<Rightarrow> sale list" where
  "filterSalesByTime tza now timeFilter sales =
     filter (\<lambda>sale.
       let saleDate = created_at sale
       in if timeFilter = ''daily'' then toDateString tza saleDate = toDateString tza now
          else if timeFilter = ''weekly'' then
            (let weekAgo = now - 7 * 24 * 60 * 60 * 1000 in saleDate \<ge> weekAgo)
          else if timeFilter = ''monthly'' then
            getMonth tza saleDate = getMonth tza now \<and>
            getFullYear tza saleDate = getFullYear tza now
          else True) sales"

text \<open>
  An item of \<open>vendasProduto\<close> is the sale item together with the \<open>created_at\<close> of its
  sale. \<open>hoje\<close> is the clock reading inside the function.
\<close>

definition calcularConsumoMedio :: "int \<Rightarrow> instant \<Rightarrow> product \<Rightarrow> sale list \<Rightarrow> ConsumoAnalise" where
  "calcularConsumoMedio tza hoje produto' vendas =
     (let vendasProduto =
            filter (\<lambda>(item, c). product_id item = prod_id produto')
              (concat (map (\<lambda>venda. map (\<lambda>item. (item, created_at venda)) (sale_items venda)) vendas));
          umMesAtras = newDate tza (getFullYear tza hoje) (getMonth tza hoje - 1) (getDate tza hoje) 0 0 0 0;
          umaSemanaAtras = hoje - 7 * 24 * 60 * 60 * 1000;
          vendasMes = filter (\<lambda>(item, c). c \<ge> umMesAtras) vendasProduto;
          vendasSemana = filter (\<lambda>(item, c). c \<ge> umaSemanaAtras) vendasProduto;
          consumoDiario = rat_of_int (foldl (\<lambda>sum (item, c). sum + quantity item) 0 vendasMes) / 30;
          consumoSemanal = rat_of_int (foldl (\<lambda>sum (item, c). sum + quantity item) 0 vendasSemana) / 7;
          consumoMensal = rat_of_int (foldl (\<lambda>sum (item, c). sum + quantity item) 0 vendasMes);
          consumoRecente = rat_of_int (foldl (\<lambda>sum (item, c). sum + quantity item) 0 vendasSemana);
          consumoAntigo = rat_of_int (foldl (\<lambda>sum (item, c). sum + quantity item) 0
                            (filter (\<lambda>(item, c). c < umaSemanaAtras) vendasMes));
          tend = (if consumoRecente > consumoAntigo * 1.1 then subindo
                  else if consumoRecente < consumoAntigo * 0.9 then descendo
                  else estavel);
          quantidadeSugerida = Math_ceil (consumoMensal * 1.2)
      in \<lparr> produto = name produto',
           consumo_diario = arredondamentoPersonalizado consumoDiario,
           consumo_semanal = arredondamentoPersonalizado consumoSemanal,
           consumo_mensal = arredondamentoPersonalizado consumoMensal,
           quantidade_sugerida = arredondamentoPersonalizado quantidadeSugerida,
           tendencia = tend \<rparr>)"

text \<open>
  \<open>Array.prototype.sort\<close> with a comparator is stable: an element stays before a later
  one unless the comparator puts it after. It is modelled by insertion from the right,
  each element going before the first one that the comparator does not put before it.
\<close>

fun insort_cmp :: "('a \<Rightarrow> 'a \<Rightarrow> rat) \<Rightarrow> 'a \<Rightarrow> 'a list \<Rightarrow> 'a list" where
  "insort_cmp cmp x [] = [x]"
| "insort_cmp cmp x (y # ys) = (if cmp x y \<le> 0 then x # y # ys else y # insort_cmp cmp x ys)"

definition Array_sort :: "('a \<Rightarrow> 'a \<Rightarrow> rat) \<Rightarrow> 'a list \<Rightarrow> 'a list" where
  "Array_sort cmp xs = foldr (insort_cmp cmp) xs []"

text \<open>
  The analysis part of the effect of the Reports page, which runs once sales and
  products are loaded: the sales are filtered by the selected period, every product is
  analysed on the filtered sales, and the list is sorted by suggested quantity, largest
  first. \<open>now\<close> is the clock reading of the filter and \<open>hoje\<close> that of the analysis.
\<close>

definition analiseConsumo ::
  "int \<Rightarrow> instant \<Rightarrow> instant \<Rightarrow> string \<Rightarrow> product list \<Rightarrow> sale list \<Rightarrow> ConsumoAnalise list" where
  "analiseConsumo tza now hoje timeFilter products sales =
     (let filteredSales = filterSalesByTime tza now timeFilter sales;
          analise = map (\<lambda>produto'. calcularConsumoMedio tza hoje produto' filteredSales) products
      in Array_sort (\<lambda>a b. quantidade_sugerida b - quantidade_sugerida a) analise)"

text \<open>
  The sums the analysis is specified by: the quantities of the sale items of product
  \<open>p\<close> whose sale is dated in the given window.
\<close>

definition itens_do_produto :: "product \<Rightarrow> sale list \<Rightarrow> (instant \<times> int) list" where
  "itens_do_produto p vendas =
     concat (map (\<lambda>v. map (\<lambda>i. (created_at v, quantity i))
                         (filter (\<lambda>i. product_id i = prod_id p) (sale_items v))) vendas)"

definition inicio_mes :: "int \<Rightarrow> instant \<Rightarrow> instant" where
  "inicio_mes tza hoje =
     newDate tza (getFullYear tza hoje) (getMonth tza hoje - 1) (getDate tza hoje) 0 0 0 0"

definition inicio_semana :: "instant \<Rightarrow> instant" where
  "inicio_semana hoje = hoje - 604800000"

definition monthlyTotal :: "int \<Rightarrow> instant \<Rightarrow> product \<Rightarrow> sale list \<Rightarrow> int" where
  "monthlyTotal tza hoje p vendas =
     sum_list (map snd (filter (\<lambda>(c, q). inicio_mes tza hoje \<le> c) (itens_do_produto p vendas)))"

definition recent :: "instant \<Rightarrow> product \<Rightarrow> sale list \<Rightarrow> int" where
  "recent hoje p vendas =
     sum_list (map snd (filter (\<lambda>(c, q). inicio_semana hoje \<le> c) (itens_do_produto p vendas)))"

definition older :: "int \<Rightarrow> instant \<Rightarrow> product \<Rightarrow> sale list \<Rightarrow> int" where
  "older tza hoje p vendas =
     sum_list (map snd (filter (\<lambda>(c, q). inicio_mes tza hoje \<le> c \<and> c < inicio_semana hoje)
                          (itens_do_produto p vendas)))"

text \<open>The items of a product, as the analysis gathers them.\<close>

definition vendasProduto_of :: "product \<Rightarrow> sale list \<Rightarrow> (sale_item \<times> instant) list" where
  "vendasProduto_of p vendas =
     filter (\<lambda>(item, c). product_id item = prod_id p)
       (concat (map (\<lambda>venda. map (\<lambda>item. (item, created_at venda)) (sale_items venda)) vendas))"

section \<open>Reports: revenue by category and by product\<close>














section \<open>Dashboard and Sales: period selection and date range\<close>

text \<open>
  Each page keeps the selected period and the two bounds in its state; a bound is
  \<open>null\<close> (\<open>None\<close>) or a date. \<open>handlePeriodChange\<close> reads the clock once and updates
  the state. The mutations of the local \<open>Date\<close> objects are written as successive
  values (\<open>start0\<close>, \<open>start1\<close>, ...; \<open>now1\<close>, \<open>now2\<close>).
\<close>

record range_state =
  selectedPeriod :: string
  startDate :: "instant option"
  endDate :: "instant option"

definition Dashboard_handlePeriodChange :: "int \<Rightarrow> instant \<Rightarrow> string \<Rightarrow> range_state \<Rightarrow> range_state" where
  "Dashboard_handlePeriodChange tza currentDate period st =
     (let st1 = st\<lparr>selectedPeriod := period\<rparr>
      in if period \<noteq> ''custom'' then
           (let (start, end') =
                  (if period = ''daily'' then
                     (Some (newDate tza (getFullYear tza currentDate) (getMonth tza currentDate)
                              (getDate tza currentDate) 0 0 0 0),
                      Some (newDate tza (getFullYear tza currentDate) (getMonth tza currentDate)
                              (getDate tza currentDate) 23 59 59 0))
                   else if period = ''weekly'' then
                     (let start0 = currentDate;
                          start1 = setDate tza start0 (getDate tza currentDate - getDay tza currentDate);
                          start2 = setHours tza start1 0 0 0 0;
                          end0 = start2;
                          end1 = setDate tza end0 (getDate tza start2 + 6);
                          end2 = setHours tza end1 23 59 59 999
                      in (Some start2, Some end2))
                   else if period = ''monthly'' then
                     (Some (newDate tza (getFullYear tza currentDate) (getMonth tza currentDate) 1 0 0 0 0),
                      Some (newDate tza (getFullYear tza currentDate) (getMonth tza currentDate + 1) 0
                              23 59 59 0))
                   else if period = ''yearly'' then
                     (Some (newDate tza (getFullYear tza currentDate) 0 1 0 0 0 0),
                      Some (newDate tza (getFullYear tza currentDate) 11 31 23 59 59 0))
                   else (None, None))
            in st1\<lparr>startDate := start, endDate := end'\<rparr>)
         else st1)"

definition Sales_handlePeriodChange :: "int \<Rightarrow> instant \<Rightarrow> string \<Rightarrow> range_state \<Rightarrow> range_state" where
  "Sales_handlePeriodChange tza now period st =
     (let st1 = st\<lparr>selectedPeriod := period\<rparr>
      in if period \<noteq> ''custom'' then
           (let (start, end') =
                  (if period = ''daily'' then
                     (let now1 = setHours tza now 0 0 0 0;
                          now2 = setHours tza now1 23 59 59 999
                      in (Some now1, Some now2))
                   else if period = ''weekly'' then
                     (let now1 = setDate tza now (getDate tza now - getDay tza now);
                          now2 = setDate tza now1 (getDate tza now1 + 6)
                      in (Some now1, Some now2))
                   else if period = ''monthly'' then
                     (Some (newDate tza (getFullYear tza now) (getMonth tza now) 1 0 0 0 0),
                      Some (newDate tza (getFullYear tza now) (getMonth tza now + 1) 0 0 0 0 0))
                   else if period = ''yearly'' then
                     (Some (newDate tza (getFullYear tza now) 0 1 0 0 0 0),
                      Some (newDate tza (getFullYear tza now) 11 31 0 0 0 0))
                   else (None, None))
            in st1\<lparr>startDate := start, endDate := end'\<rparr>)
         else st1)"

text \<open>The initial states of the two pages; the Dashboard starts on the current day.\<close>

definition Sales_initial :: range_state where
  "Sales_initial = \<lparr> selectedPeriod = ''all'', startDate = None, endDate = None \<rparr>"

definition Dashboard_initial :: "int \<Rightarrow> instant \<Rightarrow> range_state" where
  "Dashboard_initial tza now =
     \<lparr> selectedPeriod = ''daily'',
       startDate = Some (newDate tza (getFullYear tza now) (getMonth tza now) (getDate tza now) 0 0 0 0),
       endDate = Some (newDate tza (getFullYear tza now) (getMonth tza now) (getDate tza now) 23 59 59 0) \<rparr>"

text \<open>The date filter of the Dashboard.\<close>

definition filterSalesByDateRange :: "instant option \<Rightarrow> instant option \<Rightarrow> sale list \<Rightarrow> sale list" where
  "filterSalesByDateRange startDate' endDate' sales =
     (if startDate' = None \<or> endDate' = None then sales
      else filter (\<lambda>sale. let saleDate = created_at sale
                          in saleDate \<ge> the startDate' \<and> saleDate \<le> the endDate') sales)"

text \<open>
  The filter of the Sales page. The text search over product names and sale ids is the
  parameter \<open>matchesSearch\<close>; \<open>sales\<close> is \<open>None\<close> while the list is not loaded.
\<close>

definition isDateMatch :: "instant option \<Rightarrow> instant option \<Rightarrow> sale \<Rightarrow> bool" where
  "isDateMatch startDate' endDate' sale =
     (let saleDate = created_at sale
      in startDate' = None \<or> endDate' = None \<or>
         (saleDate \<ge> the startDate' \<and> saleDate \<le> the endDate'))"

definition Sales_filteredSales ::
  "(sale \<Rightarrow> bool) \<Rightarrow> string \<Rightarrow> instant option \<Rightarrow> instant option \<Rightarrow> sale list option \<Rightarrow> sale list" where
  "Sales_filteredSales matchesSearch paymentFilter startDate' endDate' sales =
     (case sales of
        None \<Rightarrow> []
      | Some ss \<Rightarrow>
          filter (\<lambda>sale. matchesSearch sale \<and> isDateMatch startDate' endDate' sale \<and>
                          (paymentFilter = ''all'' \<or> payment_method sale = paymentFilter)) ss)"

section \<open>A worked example\<close>

text \<open>
  The clock reads 2024-01-10 15:30:00 UTC, a Wednesday, in a zone with offset 0. Product
  X sold 10 units on 2024-01-08 12:00 and 20 units on 2023-12-20 12:00; product Y sold
  3 units in the second sale; product Z never sold.
\<close>

definition ex_hoje :: instant where
  "ex_hoje = 1704900600000"

definition ex_X :: product where
  "ex_X = \<lparr> prod_id = ''X'', name = ''Produto X'', category = ''bebidas'',
            selling_price = 5, cost_price = 3, stock_quantity = 10, min_stock_level = 2 \<rparr>"

definition ex_Z :: product where
  "ex_Z = \<lparr> prod_id = ''Z'', name = ''Produto Z'', category = ''limpeza'',
            selling_price = 7, cost_price = 4, stock_quantity = 1, min_stock_level = 2 \<rparr>"

definition ex_vendas :: "sale list" where
  "ex_vendas =
     [ \<lparr> sale_id = ''s1'', created_at = 1704715200000, total = 50, payment_method = ''cash'',
         sale_items = [\<lparr> product_id = ''X'', quantity = 10, price_at_sale = 5 \<rparr>] \<rparr>,
       \<lparr> sale_id = ''s2'', created_at = 1703073600000, total = 106, payment_method = ''pix'',
         sale_items = [\<lparr> product_id = ''X'', quantity = 20, price_at_sale = 5 \<rparr>,
                       \<lparr> product_id = ''Y'', quantity = 3, price_at_sale = 2 \<rparr>] \<rparr> ]"

text \<open>The same, with 11 units instead of 10 in the recent sale and 10 instead of 20 before.\<close>

definition ex_vendas_limite :: "sale list" where
  "ex_vendas_limite =
     [ \<lparr> sale_id = ''s1'', created_at = 1704715200000, total = 55, payment_method = ''cash'',
         sale_items = [\<lparr> product_id = ''X'', quantity = 11, price_at_sale = 5 \<rparr>] \<rparr>,
       \<lparr> sale_id = ''s2'', created_at = 1703073600000, total = 50, payment_method = ''pix'',
         sale_items = [\<lparr> product_id = ''X'', quantity = 10, price_at_sale = 5 \<rparr>] \<rparr> ]"


section \<open>Properties of custom rounding\<close>

lemma arredondamentoPersonalizado_cases:
  "arredondamentoPersonalizado v =
     (if v < 1 then 1 else if frac v < 1 / 2 then of_int \<lfloor>v\<rfloor> else of_int \<lfloor>v\<rfloor> + 1)"
  by (auto simp: arredondamentoPersonalizado_def js_rem1_def Math_floor_def Let_def)

lemma arredondamentoPersonalizado_integer:
  "\<exists>n::int. 1 \<le> n \<and> arredondamentoPersonalizado v = of_int n"
proof (cases "v < 1")
  case True
  then have "arredondamentoPersonalizado v = of_int 1"
    by (simp add: arredondamentoPersonalizado_cases)
  then show ?thesis by (intro exI [of _ 1]) simp
next
  case False
  then have "1 \<le> \<lfloor>v\<rfloor>" by (simp add: le_floor_iff)
  with False show ?thesis
    by (cases "frac v < 1 / 2")
       (auto simp: arredondamentoPersonalizado_cases
             intro: exI [of _ "\<lfloor>v\<rfloor>"] exI [of _ "\<lfloor>v\<rfloor> + 1"])
qed

text \<open>
  C3. Custom rounding returns 1 below 1; from 1 on it returns the floor when the
  fractional part is below one half and the floor plus one otherwise. So 0.49, 1.49
  and 0 round to 1, 1.5 rounds to 2, and the result is always an integer that is at
  least 1. (A negative value is below 1 and rounds to 1 as well.)
\<close>

theorem arredondamentoPersonalizado_spec:
  "arredondamentoPersonalizado v =
     (if v < 1 then 1 else if frac v < 1 / 2 then of_int \<lfloor>v\<rfloor> else of_int \<lfloor>v\<rfloor> + 1)
   \<and> arredondamentoPersonalizado 0.49 = 1
   \<and> arredondamentoPersonalizado 1.49 = 1
   \<and> arredondamentoPersonalizado 1.5 = 2
   \<and> arredondamentoPersonalizado 0 = 1
   \<and> (\<exists>n::int. 1 \<le> n \<and> arredondamentoPersonalizado v = of_int n)"
proof (intro conjI)
  show "arredondamentoPersonalizado 0.49 = 1" by code_simp
  show "arredondamentoPersonalizado 1.49 = 1" by code_simp
  show "arredondamentoPersonalizado 1.5 = 2" by code_simp
  show "arredondamentoPersonalizado 0 = 1" by code_simp
qed (rule arredondamentoPersonalizado_cases arredondamentoPersonalizado_integer)+

section \<open>The analysis in terms of the window sums\<close>

lemma foldl_quantity:
  "foldl (\<lambda>sum (item, c). sum + quantity item) a xs = a + sum_list (map (\<lambda>(item, c). quantity item) xs)"
  by (induction xs arbitrary: a) auto

lemma itens_do_produto_vendasProduto:
  "itens_do_produto p vendas = map (\<lambda>(item, c). (c, quantity item)) (vendasProduto_of p vendas)"
  by (induction vendas) (simp_all add: itens_do_produto_def vendasProduto_of_def filter_map comp_def)

lemma sum_window:
  "sum_list (map (\<lambda>(item, c). quantity item) (filter (\<lambda>(item, c). P c) xs)) =
   sum_list (map snd (filter (\<lambda>(c, q). P c) (map (\<lambda>(item, c). (c, quantity item)) xs)))"
  by (induction xs) auto

lemma calcularConsumoMedio_sums:
  "calcularConsumoMedio tza hoje p vendas =
     \<lparr> produto = name p,
       consumo_diario = arredondamentoPersonalizado (rat_of_int (monthlyTotal tza hoje p vendas) / 30),
       consumo_semanal = arredondamentoPersonalizado (rat_of_int (recent hoje p vendas) / 7),
       consumo_mensal = arredondamentoPersonalizado (rat_of_int (monthlyTotal tza hoje p vendas)),
       quantidade_sugerida =
         arredondamentoPersonalizado (Math_ceil (rat_of_int (monthlyTotal tza hoje p vendas) * 1.2)),
       tendencia =
         (if rat_of_int (recent hoje p vendas) > rat_of_int (older tza hoje p vendas) * 1.1 then subindo
          else if rat_of_int (recent hoje p vendas) < rat_of_int (older tza hoje p vendas) * 0.9 then descendo
          else estavel) \<rparr>"
proof -
  have m: "foldl (\<lambda>sum (item, c). sum + quantity item) 0
             (filter (\<lambda>(item, c). inicio_mes tza hoje \<le> c) (vendasProduto_of p vendas)) =
           monthlyTotal tza hoje p vendas"
    by (simp add: foldl_quantity monthlyTotal_def itens_do_produto_vendasProduto sum_window)
  have r: "foldl (\<lambda>sum (item, c). sum + quantity item) 0
             (filter (\<lambda>(item, c). hoje - 7 * 24 * 60 * 60 * 1000 \<le> c) (vendasProduto_of p vendas)) =
           recent hoje p vendas"
    by (simp add: foldl_quantity recent_def inicio_semana_def itens_do_produto_vendasProduto sum_window)
  have f: "filter (\<lambda>(item, c). c < hoje - 7 * 24 * 60 * 60 * 1000)
             (filter (\<lambda>(item, c). inicio_mes tza hoje \<le> c) xs) =
           filter (\<lambda>(item, c). inicio_mes tza hoje \<le> c \<and> c < hoje - 7 * 24 * 60 * 60 * 1000) xs" for xs :: "(sale_item \<times> instant) list"
    by (induction xs) auto
  have o: "foldl (\<lambda>sum (item, c). sum + quantity item) 0
             (filter (\<lambda>(item, c). c < hoje - 7 * 24 * 60 * 60 * 1000)
                (filter (\<lambda>(item, c). inicio_mes tza hoje \<le> c) (vendasProduto_of p vendas))) =
           older tza hoje p vendas"
    unfolding f by (simp add: foldl_quantity older_def inicio_semana_def itens_do_produto_vendasProduto sum_window)
  show ?thesis
    unfolding calcularConsumoMedio_def Let_def
    unfolding vendasProduto_of_def [symmetric] inicio_mes_def [symmetric]
    by (simp only: m r o)
qed

section \<open>Trend, suggested quantity and products without sales\<close>

text \<open>
  C2. With \<open>recent\<close> the quantity sold in the last 7 days and \<open>older\<close> the quantity
  sold since one month ago but before the last 7 days, the trend is rising exactly when
  \<open>recent > older * 1.1\<close>, falling exactly when \<open>recent < older * 0.9\<close>, and stable
  otherwise. At \<open>recent = older * 1.1\<close> and at \<open>recent = older * 0.9\<close> it is stable;
  \<open>older = 0\<close> with \<open>recent > 0\<close> is rising; both zero is stable. The sum \<open>older\<close> is
  not negative, as a sum of the data model's quantities never is (\<open>older_nonneg\<close>
  below).
\<close>

theorem tendencia_thresholds:
  assumes "0 \<le> older tza hoje p vendas"
  shows
  "(tendencia (calcularConsumoMedio tza hoje p vendas) = subindo \<longleftrightarrow>
      rat_of_int (recent hoje p vendas) > rat_of_int (older tza hoje p vendas) * 1.1)
   \<and> (tendencia (calcularConsumoMedio tza hoje p vendas) = descendo \<longleftrightarrow>
      rat_of_int (recent hoje p vendas) < rat_of_int (older tza hoje p vendas) * 0.9)
   \<and> (tendencia (calcularConsumoMedio tza hoje p vendas) = estavel \<longleftrightarrow>
      \<not> rat_of_int (recent hoje p vendas) > rat_of_int (older tza hoje p vendas) * 1.1 \<and>
      \<not> rat_of_int (recent hoje p vendas) < rat_of_int (older tza hoje p vendas) * 0.9)
   \<and> (rat_of_int (recent hoje p vendas) = rat_of_int (older tza hoje p vendas) * 1.1 \<longrightarrow>
      tendencia (calcularConsumoMedio tza hoje p vendas) = estavel)
   \<and> (rat_of_int (recent hoje p vendas) = rat_of_int (older tza hoje p vendas) * 0.9 \<longrightarrow>
      tendencia (calcularConsumoMedio tza hoje p vendas) = estavel)
   \<and> (older tza hoje p vendas = 0 \<and> recent hoje p vendas > 0 \<longrightarrow>
      tendencia (calcularConsumoMedio tza hoje p vendas) = subindo)
   \<and> (recent hoje p vendas = 0 \<and> older tza hoje p vendas = 0 \<longrightarrow>
      tendencia (calcularConsumoMedio tza hoje p vendas) = estavel)"
proof -
  define rc where "rc = rat_of_int (recent hoje p vendas)"
  define od where "od = rat_of_int (older tza hoje p vendas)"
  have o0: "0 \<le> od" using assms by (simp add: od_def)
  have t: "tendencia (calcularConsumoMedio tza hoje p vendas) =
             (if rc > od * 1.1 then subindo else if rc < od * 0.9 then descendo else estavel)"
    by (simp add: calcularConsumoMedio_sums rc_def od_def)
  have "(tendencia (calcularConsumoMedio tza hoje p vendas) = subindo \<longleftrightarrow> rc > od * 1.1)
      \<and> (tendencia (calcularConsumoMedio tza hoje p vendas) = descendo \<longleftrightarrow> rc < od * 0.9)
      \<and> (tendencia (calcularConsumoMedio tza hoje p vendas) = estavel \<longleftrightarrow>
            \<not> rc > od * 1.1 \<and> \<not> rc < od * 0.9)
      \<and> (rc = od * 1.1 \<longrightarrow> tendencia (calcularConsumoMedio tza hoje p vendas) = estavel)
      \<and> (rc = od * 0.9 \<longrightarrow> tendencia (calcularConsumoMedio tza hoje p vendas) = estavel)
      \<and> (od = 0 \<and> rc > 0 \<longrightarrow> tendencia (calcularConsumoMedio tza hoje p vendas) = subindo)
      \<and> (rc = 0 \<and> od = 0 \<longrightarrow> tendencia (calcularConsumoMedio tza hoje p vendas) = estavel)"
    using o0 unfolding t by auto
  then show ?thesis
    by (simp add: rc_def od_def)
qed

text \<open>
  The example has \<open>recent = 10\<close> and \<open>older = 20\<close>, so it is falling; with
  \<open>recent = 11\<close> and \<open>older = 10\<close> it sits on the upper threshold and is stable.
\<close>

theorem tendencia_thresholds_witness:
  "tendencia (calcularConsumoMedio 0 ex_hoje ex_X ex_vendas) = descendo
   \<and> recent ex_hoje ex_X ex_vendas = 10 \<and> older 0 ex_hoje ex_X ex_vendas = 20
   \<and> tendencia (calcularConsumoMedio 0 ex_hoje ex_X ex_vendas_limite) = estavel
   \<and> recent ex_hoje ex_X ex_vendas_limite = 11 \<and> older 0 ex_hoje ex_X ex_vendas_limite = 10"
proof -
  have r1: "recent ex_hoje ex_X ex_vendas = 10" by code_simp
  have o1: "older 0 ex_hoje ex_X ex_vendas = 20" by code_simp
  have r2: "recent ex_hoje ex_X ex_vendas_limite = 11" by code_simp
  have o2: "older 0 ex_hoje ex_X ex_vendas_limite = 10" by code_simp
  have h1: "0 \<le> older 0 ex_hoje ex_X ex_vendas" by (simp add: o1)
  have h2: "0 \<le> older 0 ex_hoje ex_X ex_vendas_limite" by (simp add: o2)
  show ?thesis
    using tendencia_thresholds [OF h1] tendencia_thresholds [OF h2]
    by (simp add: r1 o1 r2 o2)
qed

text \<open>
  C4. The suggested quantity is the custom rounding of \<open>ceil(monthlyTotal * 1.2)\<close>,
  where \<open>monthlyTotal\<close> is the quantity of the product sold since one month ago; a
  monthly total of 30 gives 36.
\<close>

theorem quantidade_sugerida_spec:
  "quantidade_sugerida (calcularConsumoMedio tza hoje p vendas) =
     arredondamentoPersonalizado (rat_of_int \<lceil>rat_of_int (monthlyTotal tza hoje p vendas) * 1.2\<rceil>)
   \<and> (monthlyTotal tza hoje p vendas = 30 \<longrightarrow>
        quantidade_sugerida (calcularConsumoMedio tza hoje p vendas) = 36)"
proof (intro conjI impI)
  show eq: "quantidade_sugerida (calcularConsumoMedio tza hoje p vendas) =
     arredondamentoPersonalizado (rat_of_int \<lceil>rat_of_int (monthlyTotal tza hoje p vendas) * 1.2\<rceil>)"
    by (simp add: calcularConsumoMedio_sums Math_ceil_def)
  assume "monthlyTotal tza hoje p vendas = 30"
  moreover have "arredondamentoPersonalizado (rat_of_int \<lceil>rat_of_int 30 * 1.2\<rceil>) = 36"
    by code_simp
  ultimately show "quantidade_sugerida (calcularConsumoMedio tza hoje p vendas) = 36"
    by (simp only: eq)
qed

theorem quantidade_sugerida_spec_witness:
  "monthlyTotal 0 ex_hoje ex_X ex_vendas = 30
   \<and> quantidade_sugerida (calcularConsumoMedio 0 ex_hoje ex_X ex_vendas) = 36"
proof -
  have m: "monthlyTotal 0 ex_hoje ex_X ex_vendas = 30" by code_simp
  show ?thesis
    using quantidade_sugerida_spec [of 0 ex_hoje ex_X ex_vendas] m by simp
qed

lemma older_nonneg:
  assumes "\<forall>v\<in>set vendas. \<forall>i\<in>set (sale_items v). 0 \<le> quantity i"
  shows "0 \<le> older tza hoje p vendas"
proof -
  have "\<forall>x\<in>set (itens_do_produto p vendas). 0 \<le> snd x"
    using assms by (auto simp: itens_do_produto_def)
  then show ?thesis
    unfolding older_def by (intro sum_list_nonneg) auto
qed

lemma itens_do_produto_empty:
  assumes "\<forall>v\<in>set vendas. \<forall>i\<in>set (sale_items v). product_id i \<noteq> prod_id p"
  shows "itens_do_produto p vendas = []"
  using assms by (induction vendas) (auto simp: itens_do_produto_def filter_empty_conv)

text \<open>
  C5. A product none of whose sale items occurs in the sales has daily, weekly and
  monthly consumption 1, suggested quantity 1 and a stable trend.
\<close>

theorem sem_vendas_tudo_um:
  assumes "\<forall>v\<in>set vendas. \<forall>i\<in>set (sale_items v). product_id i \<noteq> prod_id p"
  shows "consumo_diario (calcularConsumoMedio tza hoje p vendas) = 1
       \<and> consumo_semanal (calcularConsumoMedio tza hoje p vendas) = 1
       \<and> consumo_mensal (calcularConsumoMedio tza hoje p vendas) = 1
       \<and> quantidade_sugerida (calcularConsumoMedio tza hoje p vendas) = 1
       \<and> tendencia (calcularConsumoMedio tza hoje p vendas) = estavel"
proof -
  have e: "itens_do_produto p vendas = []"
    using assms by (rule itens_do_produto_empty)
  have z: "monthlyTotal tza hoje p vendas = 0" "recent hoje p vendas = 0" "older tza hoje p vendas = 0"
    by (simp_all add: monthlyTotal_def recent_def older_def e)
  have a0: "arredondamentoPersonalizado 0 = 1"
    by (simp add: arredondamentoPersonalizado_def)
  show ?thesis
    by (simp add: calcularConsumoMedio_sums z Math_ceil_def a0)
qed

theorem sem_vendas_tudo_um_witness:
  "calcularConsumoMedio 0 ex_hoje ex_Z ex_vendas =
     \<lparr> produto = ''Produto Z'', consumo_diario = 1, consumo_semanal = 1, consumo_mensal = 1,
       quantidade_sugerida = 1, tendencia = estavel \<rparr>"
proof -
  have h: "\<forall>v\<in>set ex_vendas. \<forall>i\<in>set (sale_items v). product_id i \<noteq> prod_id ex_Z"
    by (simp add: ex_vendas_def ex_Z_def)
  have n: "produto (calcularConsumoMedio 0 ex_hoje ex_Z ex_vendas) = ''Produto Z''"
    by (simp add: calcularConsumoMedio_sums ex_Z_def)
  show ?thesis
    using sem_vendas_tudo_um [OF h, of 0 ex_hoje] n
    by (cases "calcularConsumoMedio 0 ex_hoje ex_Z ex_vendas") simp
qed

section \<open>The sorted analysis list\<close>

text \<open>
  Sorting by the comparator \<open>b.quantidade_sugerida - a.quantidade_sugerida\<close> is the
  stable sort by the negated key.
\<close>

lemma insort_cmp_insort_key:
  "insort_cmp (\<lambda>a b. k b - k a) x xs = insort_key (\<lambda>a. - k a) x xs"
  for k :: "'a \<Rightarrow> rat"
  by (induction xs) auto

lemma Array_sort_sort_key:
  "Array_sort (\<lambda>a b. k b - k a) xs = sort_key (\<lambda>a. - k a) xs"
  for k :: "'a \<Rightarrow> rat"
  by (induction xs) (simp_all add: Array_sort_def sort_key_def insort_cmp_insort_key)

lemma Array_sort_descending:
  "sorted_wrt (\<lambda>a b. k a \<ge> k b) (Array_sort (\<lambda>a b. k b - k a) xs)"
  for k :: "'a \<Rightarrow> rat"
proof -
  have "sorted (map (\<lambda>a. - k a) (sort_key (\<lambda>a. - k a) xs))"
    by (rule sorted_sort_key)
  then show ?thesis
    by (simp add: Array_sort_sort_key sorted_map)
qed

lemma Array_sort_stable:
  "filter (\<lambda>a. k a = q) (Array_sort (\<lambda>a b. k b - k a) xs) = filter (\<lambda>a. k a = q) xs"
  for k :: "'a \<Rightarrow> rat"
proof -
  have "filter (\<lambda>a. - k a = - q) (sort_key (\<lambda>a. - k a) xs) = filter (\<lambda>a. - k a = - q) xs"
    by (rule sort_key_stable)
  then show ?thesis
    by (simp add: Array_sort_sort_key)
qed

lemma Array_sort_mset:
  "mset (Array_sort (\<lambda>a b. k b - k a) xs) = mset xs"
  for k :: "'a \<Rightarrow> rat"
  by (simp add: Array_sort_sort_key)

text \<open>
  C6. The analysis list is in non-increasing order of suggested quantity, and the sort
  is stable: the records with any given suggested quantity appear in the order of
  their products in the catalog. The list holds exactly the records of the products.
\<close>

theorem analiseConsumo_sorted_stable:
  "sorted_wrt (\<lambda>a b. quantidade_sugerida a \<ge> quantidade_sugerida b)
     (analiseConsumo tza now hoje tf products sales)
   \<and> (\<forall>q. filter (\<lambda>a. quantidade_sugerida a = q) (analiseConsumo tza now hoje tf products sales) =
            filter (\<lambda>a. quantidade_sugerida a = q)
              (map (\<lambda>p. calcularConsumoMedio tza hoje p (filterSalesByTime tza now tf sales)) products))
   \<and> mset (analiseConsumo tza now hoje tf products sales) =
       mset (map (\<lambda>p. calcularConsumoMedio tza hoje p (filterSalesByTime tza now tf sales)) products)"
  unfolding analiseConsumo_def Let_def
  by (intro conjI allI Array_sort_descending Array_sort_stable Array_sort_mset)

section \<open>The analysis and the display filter\<close>

lemma filterSalesByTime_other:
  assumes "tf \<noteq> ''daily''" "tf \<noteq> ''weekly''" "tf \<noteq> ''monthly''"
  shows "filterSalesByTime tza now tf sales = sales"
  using assms by (simp add: filterSalesByTime_def)

text \<open>
  C1, as the code has it. The analysis is computed from the sales that pass the
  selected time filter: the analysis under a filter is the unfiltered analysis of the
  filtered sales. When the selected period is none of \<open>daily\<close>, \<open>weekly\<close> and
  \<open>monthly\<close> (the initial \<open>all\<close>), every sale passes and a product's record is the one
  computed from all the sales.
\<close>

theorem analise_sobre_vendas_filtradas:
  "analiseConsumo tza now hoje tf products sales =
     analiseConsumo tza now hoje ''all'' products (filterSalesByTime tza now tf sales)
   \<and> (tf \<noteq> ''daily'' \<and> tf \<noteq> ''weekly'' \<and> tf \<noteq> ''monthly'' \<longrightarrow>
        calcularConsumoMedio tza hoje p (filterSalesByTime tza now tf sales) =
        calcularConsumoMedio tza hoje p sales)"
proof (intro conjI impI)
  have "filterSalesByTime tza now ''all'' xs = xs" for xs
    by (rule filterSalesByTime_other) simp_all
  then show "analiseConsumo tza now hoje tf products sales =
     analiseConsumo tza now hoje ''all'' products (filterSalesByTime tza now tf sales)"
    by (simp add: analiseConsumo_def)
next
  assume "tf \<noteq> ''daily'' \<and> tf \<noteq> ''weekly'' \<and> tf \<noteq> ''monthly''"
  then have "filterSalesByTime tza now tf sales = sales"
    by (intro filterSalesByTime_other) simp_all
  then show "calcularConsumoMedio tza hoje p (filterSalesByTime tza now tf sales) =
        calcularConsumoMedio tza hoje p sales"
    by simp
qed

theorem analise_sobre_vendas_filtradas_witness:
  "calcularConsumoMedio 0 ex_hoje ex_X (filterSalesByTime 0 ex_hoje ''all'' ex_vendas) =
     \<lparr> produto = ''Produto X'', consumo_diario = 1, consumo_semanal = 1, consumo_mensal = 30,
       quantidade_sugerida = 36, tendencia = descendo \<rparr>"
proof -
  have v: "calcularConsumoMedio 0 ex_hoje ex_X ex_vendas =
     \<lparr> produto = ''Produto X'', consumo_diario = 1, consumo_semanal = 1, consumo_mensal = 30,
       quantidade_sugerida = 36, tendencia = descendo \<rparr>"
    by code_simp
  show ?thesis
    using analise_sobre_vendas_filtradas [of 0 ex_hoje ex_hoje "''all''" "[ex_X]" ex_vendas ex_X] v
    by simp
qed

text \<open>
  C1 as stated fails: under the \<open>daily\<close> filter the two sales of the example, made two
  days and three weeks before the clock reading, are dropped before the analysis, and
  the record of product X changes from (1, 1, 30, 36, falling) to (1, 1, 1, 1, stable).
\<close>

theorem analise_filtro_diario_counterexample:
  "calcularConsumoMedio 0 ex_hoje ex_X (filterSalesByTime 0 ex_hoje ''daily'' ex_vendas) =
     \<lparr> produto = ''Produto X'', consumo_diario = 1, consumo_semanal = 1, consumo_mensal = 1,
       quantidade_sugerida = 1, tendencia = estavel \<rparr>
   \<and> calcularConsumoMedio 0 ex_hoje ex_X ex_vendas =
     \<lparr> produto = ''Produto X'', consumo_diario = 1, consumo_semanal = 1, consumo_mensal = 30,
       quantidade_sugerida = 36, tendencia = descendo \<rparr>
   \<and> calcularConsumoMedio 0 ex_hoje ex_X (filterSalesByTime 0 ex_hoje ''daily'' ex_vendas) \<noteq>
     calcularConsumoMedio 0 ex_hoje ex_X ex_vendas"
proof -
  have a: "calcularConsumoMedio 0 ex_hoje ex_X (filterSalesByTime 0 ex_hoje ''daily'' ex_vendas) =
     \<lparr> produto = ''Produto X'', consumo_diario = 1, consumo_semanal = 1, consumo_mensal = 1,
       quantidade_sugerida = 1, tendencia = estavel \<rparr>"
    by code_simp
  have b: "calcularConsumoMedio 0 ex_hoje ex_X ex_vendas =
     \<lparr> produto = ''Produto X'', consumo_diario = 1, consumo_semanal = 1, consumo_mensal = 30,
       quantidade_sugerida = 36, tendencia = descendo \<rparr>"
    by code_simp
  show ?thesis
    unfolding a b by simp
qed

section \<open>The date range filter\<close>

text \<open>
  C7, as the code has it. The date filter applies only when both bounds are set: then
  exactly the sales dated from \<open>start\<close> to \<open>end\<close> pass. When either bound is null, the
  start or the end or both, every sale passes the date test (on the Sales page: every
  sale that passes the search and payment tests, here switched off).
\<close>

theorem date_filter_needs_both_bounds:
  "filterSalesByDateRange None e sales = sales
   \<and> filterSalesByDateRange s None sales = sales
   \<and> filterSalesByDateRange (Some a) (Some b) sales =
       filter (\<lambda>x. a \<le> created_at x \<and> created_at x \<le> b) sales
   \<and> isDateMatch None e x
   \<and> isDateMatch s None x
   \<and> (isDateMatch (Some a) (Some b) x \<longleftrightarrow> a \<le> created_at x \<and> created_at x \<le> b)
   \<and> Sales_filteredSales (\<lambda>_. True) ''all'' None e (Some sales) = sales
   \<and> Sales_filteredSales (\<lambda>_. True) ''all'' s None (Some sales) = sales
   \<and> Sales_filteredSales (\<lambda>_. True) ''all'' (Some a) (Some b) (Some sales) =
       filter (\<lambda>x. a \<le> created_at x \<and> created_at x \<le> b) sales"
  by (simp add: filterSalesByDateRange_def isDateMatch_def Sales_filteredSales_def Let_def)

text \<open>
  C7 as stated fails: with a start bound at the clock reading of the example and no
  end bound, no sale of the example is dated at or after the start, yet both pages
  let every sale pass; likewise with only an end bound at instant 0.
\<close>

theorem date_filter_open_end_counterexample:
  "filter (\<lambda>x. ex_hoje \<le> created_at x) ex_vendas = []
   \<and> filterSalesByDateRange (Some ex_hoje) None ex_vendas = ex_vendas
   \<and> Sales_filteredSales (\<lambda>_. True) ''all'' (Some ex_hoje) None (Some ex_vendas) = ex_vendas
   \<and> filter (\<lambda>x. created_at x \<le> 0) ex_vendas = []
   \<and> filterSalesByDateRange None (Some 0) ex_vendas = ex_vendas
   \<and> Sales_filteredSales (\<lambda>_. True) ''all'' None (Some 0) (Some ex_vendas) = ex_vendas
   \<and> ex_vendas \<noteq> []"
  by (simp add: filterSalesByDateRange_def isDateMatch_def Sales_filteredSales_def Let_def
        ex_vendas_def ex_hoje_def)

section \<open>Calendar lemmas\<close>

text \<open>
  The civil date of a day number determines the day number back: the first day of its
  month lies \<open>d - 1\<close> days before it. So \<open>setDate\<close> moves a date within the day
  count of its own month and keeps the time of day.
\<close>

lemma civil_from_days_first_of_month:
  assumes "civil_from_days z = (y, m, d)"
  shows "1 \<le> m \<and> m \<le> 12 \<and> days_from_civil y m 1 = z - d + 1"
proof -
  define z' where "z' = z + 719468"
  define era where "era = z' div 146097"
  define doe where "doe = z' mod 146097"
  define c where "c = min (doe div 36524) 3"
  define r1 where "r1 = doe - c * 36524"
  define q where "q = r1 div 1461"
  define r2 where "r2 = r1 mod 1461"
  define k where "k = min (r2 div 365) 3"
  define doy where "doy = r2 - k * 365"
  define yoe where "yoe = c * 100 + q * 4 + k"
  define mp where "mp = (5 * doy + 2) div 153"
  have doe: "0 \<le> doe" "doe \<le> 146096" "z' = era * 146097 + doe"
    by (simp_all add: doe_def era_def)
  have c: "0 \<le> c" "c \<le> 3"
    using doe by (simp_all add: c_def pos_imp_zdiv_nonneg_iff)
  have r1: "0 \<le> r1" "r1 \<le> 36524"
    using doe unfolding r1_def c_def by (auto simp: min_def) 
  have q: "0 \<le> q" "q \<le> 24"
    using r1 zdiv_mono1 [of r1 36524 1461] by (simp_all add: q_def pos_imp_zdiv_nonneg_iff)
  have r2: "0 \<le> r2" "r2 \<le> 1460" "r1 = q * 1461 + r2"
    by (simp_all add: r2_def q_def)
  have k: "0 \<le> k" "k \<le> 3"
    using r2 by (simp_all add: k_def pos_imp_zdiv_nonneg_iff)
  have doy: "0 \<le> doy" "doy \<le> 365"
    using r2 unfolding doy_def k_def by (auto simp: min_def)
  have mp: "0 \<le> mp" "mp \<le> 11"
    using doy zdiv_mono1 [of "5 * doy + 2" 1827 153] by (simp_all add: mp_def pos_imp_zdiv_nonneg_iff)
  have y4: "yoe div 4 = c * 25 + q"
    by (rule int_div_pos_eq [where r = k]) (use k in \<open>simp_all add: yoe_def\<close>)
  have y100: "yoe div 100 = c"
    by (rule int_div_pos_eq [where r = "q * 4 + k"]) (use k q in \<open>simp_all add: yoe_def\<close>)
  have yoe: "0 \<le> yoe" "yoe \<le> 399"
    using c q k by (simp_all add: yoe_def)
  have e400: "(era * 400 + yoe) div 400 = era"
    by (rule int_div_pos_eq [where r = yoe]) (use yoe in simp_all)
  have start: "yoe * 365 + yoe div 4 - yoe div 100 = doe - doy"
    unfolding y4 y100 using r2(3) by (simp add: yoe_def doy_def r1_def)
  have cfd: "civil_from_days z =
      (if (if mp < 10 then mp + 3 else mp - 9) \<le> 2
       then era * 400 + c * 100 + q * 4 + k + 1 else era * 400 + c * 100 + q * 4 + k,
       if mp < 10 then mp + 3 else mp - 9,
       doy - (153 * mp + 2) div 5 + 1)"
    unfolding civil_from_days_def Let_def z'_def era_def doe_def c_def r1_def q_def r2_def
      k_def doy_def mp_def
    by (rule refl)
  have ymd: "y = (if (if mp < 10 then mp + 3 else mp - 9) \<le> 2 then era * 400 + yoe + 1 else era * 400 + yoe)"
            "m = (if mp < 10 then mp + 3 else mp - 9)"
            "d = doy - (153 * mp + 2) div 5 + 1"
    using assms unfolding cfd by (auto simp: yoe_def)
  have m: "1 \<le> m" "m \<le> 12"
    using mp by (auto simp: ymd(2))
  have y': "(if m \<le> 2 then y - 1 else y) = era * 400 + yoe"
    by (simp add: ymd(1) ymd(2) [symmetric])
  have mp': "(if m > 2 then m - 3 else m + 9) = mp"
    using mp by (auto simp: ymd(2))
  have "days_from_civil y m 1 = era * 146097 + (doe - doy) + (153 * mp + 2) div 5 - 719468"
    unfolding days_from_civil_def Let_def y' mp' e400
    using start by simp
  also have "\<dots> = z - d + 1"
    using doe(3) by (simp add: ymd(3) z'_def)
  finally show ?thesis using m by simp
qed


lemma MakeDay_current_month:
  "MakeDay (YearFromTime t) (MonthFromTime t) d = Day t - DateFromTime t + d"
proof -
  obtain y m dd where cfd: "civil_from_days (Day t) = (y, m, dd)"
    by (cases "civil_from_days (Day t)") auto
  from civil_from_days_first_of_month [OF cfd]
  have m: "1 \<le> m" "m \<le> 12" and f: "days_from_civil y m 1 = Day t - dd + 1"
    by simp_all
  have "(m - 1) div 12 = 0" "(m - 1) mod 12 + 1 = m"
    using m by simp_all
  then show ?thesis
    by (simp add: MakeDay_def YearFromTime_def MonthFromTime_def DateFromTime_def cfd f)
qed

lemma Day_MakeDate:
  assumes "0 \<le> tm" "tm < msPerDay"
  shows "Day (MakeDate x tm) = x" "TimeWithinDay (MakeDate x tm) = tm"
proof -
  have "MakeDate x tm = msPerDay * x + tm"
    by (simp add: MakeDate_def)
  then show "Day (MakeDate x tm) = x" "TimeWithinDay (MakeDate x tm) = tm"
    unfolding Day_def TimeWithinDay_def
    using assms by (simp_all add: int_div_pos_eq int_mod_pos_eq)
qed

lemma TimeWithinDay_range: "0 \<le> TimeWithinDay t" "TimeWithinDay t < msPerDay"
  by (simp_all add: TimeWithinDay_def msPerDay_def)

lemma setDate_local:
  "LocalTime tza (setDate tza t d) =
     MakeDate (Day (LocalTime tza t) - DateFromTime (LocalTime tza t) + d)
              (TimeWithinDay (LocalTime tza t))"
  by (simp add: setDate_def Let_def LocalTime_def UTC_def MakeDay_current_month)

lemma setHours_local:
  "LocalTime tza (setHours tza t h mi s ms) = MakeDate (Day (LocalTime tza t)) (MakeTime h mi s ms)"
  by (simp add: setHours_def LocalTime_def UTC_def)

section \<open>The period selectors of the two pages\<close>

text \<open>
  For every clock reading and zone offset, the Dashboard resolves \<open>weekly\<close> to local
  midnight of the Sunday on or before the current day and to 23:59:59.999 of the
  Saturday six days later; the Sales page resolves it to the same two days at the time
  of day of the clock reading.
\<close>

lemma sunday_of_is_sunday:
  "WeekDay (MakeDate (sunday_of tza t) 0) = 0"
  "sunday_of tza t \<le> Day (LocalTime tza t)"
  "Day (LocalTime tza t) < sunday_of tza t + 7"
proof -
  have "Day (MakeDate (sunday_of tza t) 0) = sunday_of tza t"
    by (rule Day_MakeDate) (simp_all add: msPerDay_def)
  then show "WeekDay (MakeDate (sunday_of tza t) 0) = 0"
    by (simp add: WeekDay_def sunday_of_def) presburger
  show "sunday_of tza t \<le> Day (LocalTime tza t)" "Day (LocalTime tza t) < sunday_of tza t + 7"
    by (simp_all add: sunday_of_def WeekDay_def)
qed

lemma weekly_setDate_sunday:
  "LocalTime tza (setDate tza t (getDate tza t - getDay tza t)) =
     MakeDate (sunday_of tza t) (TimeWithinDay (LocalTime tza t))"
  by (simp add: setDate_local getDate_def getDay_def sunday_of_def)

lemma Dashboard_weekly_range:
  "Dashboard_handlePeriodChange tza now ''weekly'' st =
     st\<lparr> selectedPeriod := ''weekly'',
         startDate := Some (UTC tza (MakeDate (sunday_of tza now) (MakeTime 0 0 0 0))),
         endDate := Some (UTC tza (MakeDate (sunday_of tza now + 6) (MakeTime 23 59 59 999))) \<rparr>"
proof -
  let ?lt = "LocalTime tza now"
  let ?start1 = "setDate tza now (getDate tza now - getDay tza now)"
  let ?start2 = "setHours tza ?start1 0 0 0 0"
  let ?end1 = "setDate tza ?start2 (getDate tza ?start2 + 6)"
  let ?end2 = "setHours tza ?end1 23 59 59 999"
  have d1: "Day (LocalTime tza ?start1) = sunday_of tza now"
    unfolding weekly_setDate_sunday by (rule Day_MakeDate) (rule TimeWithinDay_range)+
  have l2: "LocalTime tza ?start2 = MakeDate (sunday_of tza now) (MakeTime 0 0 0 0)"
    by (simp only: setHours_local d1)
  have d2: "Day (LocalTime tza ?start2) = sunday_of tza now"
    unfolding l2 by (rule Day_MakeDate) (simp_all add: MakeTime_def msPerDay_def)
  have g2: "getDate tza ?start2 = DateFromTime (LocalTime tza ?start2)"
    by (simp only: getDate_def)
  have "LocalTime tza ?end1 =
          MakeDate (sunday_of tza now + 6) (TimeWithinDay (LocalTime tza ?start2))"
    unfolding setDate_local [of tza ?start2] g2 d2 by simp
  then have d3: "Day (LocalTime tza ?end1) = sunday_of tza now + 6"
    by (simp only: Day_MakeDate(1) [OF TimeWithinDay_range])
  have s: "?start2 = UTC tza (MakeDate (sunday_of tza now) (MakeTime 0 0 0 0))"
    by (simp only: setHours_def [of tza ?start1 0 0 0 0] d1)
  have e: "?end2 = UTC tza (MakeDate (sunday_of tza now + 6) (MakeTime 23 59 59 999))"
    by (simp only: setHours_def [of tza ?end1 23 59 59 999] d3)
  show ?thesis
    unfolding Dashboard_handlePeriodChange_def Let_def
    by (simp add: s [symmetric] e [symmetric])
qed

lemma Sales_weekly_range:
  "Sales_handlePeriodChange tza now ''weekly'' st =
     st\<lparr> selectedPeriod := ''weekly'',
         startDate := Some (UTC tza (MakeDate (sunday_of tza now) (TimeWithinDay (LocalTime tza now)))),
         endDate := Some (UTC tza (MakeDate (sunday_of tza now + 6) (TimeWithinDay (LocalTime tza now)))) \<rparr>"
proof -
  let ?tw = "TimeWithinDay (LocalTime tza now)"
  let ?now1 = "setDate tza now (getDate tza now - getDay tza now)"
  let ?now2 = "setDate tza ?now1 (getDate tza ?now1 + 6)"
  have l1: "LocalTime tza ?now1 = MakeDate (sunday_of tza now) ?tw"
    by (rule weekly_setDate_sunday)
  have d1: "Day (LocalTime tza ?now1) = sunday_of tza now"
       and t1: "TimeWithinDay (LocalTime tza ?now1) = ?tw"
    unfolding l1 by (rule Day_MakeDate; rule TimeWithinDay_range)+
  have g1: "getDate tza ?now1 = DateFromTime (LocalTime tza ?now1)"
    by (simp only: getDate_def)
  have l2: "LocalTime tza ?now2 = MakeDate (sunday_of tza now + 6) ?tw"
    unfolding setDate_local [of tza ?now1] g1 d1 t1 by simp
  have s: "?now1 = UTC tza (MakeDate (sunday_of tza now) ?tw)"
    using l1 by (simp add: LocalTime_def UTC_def)
  have e: "?now2 = UTC tza (MakeDate (sunday_of tza now + 6) ?tw)"
    using l2 by (simp add: LocalTime_def UTC_def)
  show ?thesis
    unfolding Sales_handlePeriodChange_def Let_def
    by (simp add: s [symmetric] e [symmetric])
qed

text \<open>
  C8 at 2024-01-10 15:30:00, a Wednesday (weekday 3). The Dashboard resolves \<open>weekly\<close>
  to Sunday 2024-01-07 00:00:00.000 and Saturday 2024-01-13 23:59:59.999. The Sales
  page moves the date only and keeps the time of day: it yields Sunday 15:30:00.000 and
  Saturday 15:30:00.000.
\<close>

theorem Sales_weekly_keeps_time_of_day:
  "Sales_handlePeriodChange 0 ex_hoje ''weekly'' Sales_initial =
     \<lparr> selectedPeriod = ''weekly'', startDate = Some 1704641400000, endDate = Some 1705159800000 \<rparr>
   \<and> Dashboard_handlePeriodChange 0 ex_hoje ''weekly'' (Dashboard_initial 0 ex_hoje) =
     \<lparr> selectedPeriod = ''weekly'', startDate = Some 1704585600000, endDate = Some 1705190399999 \<rparr>
   \<and> getDay 0 ex_hoje = 3
   \<and> toDateString 0 1704641400000 = (0, 0, 7, 2024)
   \<and> TimeWithinDay 1704641400000 = MakeTime 15 30 0 0
   \<and> TimeWithinDay 1705159800000 = MakeTime 15 30 0 0
   \<and> TimeWithinDay 1704585600000 = MakeTime 0 0 0 0
   \<and> TimeWithinDay 1705190399999 = MakeTime 23 59 59 999"
  by code_simp

text \<open>
  C10 at the same instant. The two pages agree on \<open>all\<close> and on every start bound but
  the weekly one; the end bounds differ for \<open>daily\<close> (23:59:59.000 on the Dashboard,
  23:59:59.999 on Sales), \<open>monthly\<close> and \<open>yearly\<close> (23:59:59.000 of the last day on the
  Dashboard, 00:00:00.000 of the last day on Sales), and both bounds differ for
  \<open>weekly\<close>.
\<close>

theorem period_resolvers_differ:
  "Dashboard_handlePeriodChange 0 ex_hoje ''daily'' Sales_initial =
     \<lparr> selectedPeriod = ''daily'', startDate = Some 1704844800000, endDate = Some 1704931199000 \<rparr>
   \<and> Sales_handlePeriodChange 0 ex_hoje ''daily'' Sales_initial =
     \<lparr> selectedPeriod = ''daily'', startDate = Some 1704844800000, endDate = Some 1704931199999 \<rparr>
   \<and> Dashboard_handlePeriodChange 0 ex_hoje ''monthly'' Sales_initial =
     \<lparr> selectedPeriod = ''monthly'', startDate = Some 1704067200000, endDate = Some 1706745599000 \<rparr>
   \<and> Sales_handlePeriodChange 0 ex_hoje ''monthly'' Sales_initial =
     \<lparr> selectedPeriod = ''monthly'', startDate = Some 1704067200000, endDate = Some 1706659200000 \<rparr>
   \<and> Dashboard_handlePeriodChange 0 ex_hoje ''yearly'' Sales_initial =
     \<lparr> selectedPeriod = ''yearly'', startDate = Some 1704067200000, endDate = Some 1735689599000 \<rparr>
   \<and> Sales_handlePeriodChange 0 ex_hoje ''yearly'' Sales_initial =
     \<lparr> selectedPeriod = ''yearly'', startDate = Some 1704067200000, endDate = Some 1735603200000 \<rparr>
   \<and> Dashboard_handlePeriodChange 0 ex_hoje ''weekly'' Sales_initial \<noteq>
     Sales_handlePeriodChange 0 ex_hoje ''weekly'' Sales_initial
   \<and> Dashboard_handlePeriodChange 0 ex_hoje ''all'' Sales_initial =
     Sales_handlePeriodChange 0 ex_hoje ''all'' Sales_initial"
  by code_simp

text \<open>
  The same holds at every instant and for every zone offset: the two pages agree on
  \<open>all\<close> only. The daily end bounds differ in their milliseconds, the monthly and
  yearly end bounds by 23:59:59, and the weekly ranges cannot agree on both bounds.
\<close>

lemma newDate_local:
  "LocalTime tza (newDate tza y m d h mi s ms) =
     MakeDate (MakeDay (if 0 \<le> y \<and> y \<le> 99 then 1900 + y else y) m d) (MakeTime h mi s ms)"
  by (simp add: newDate_def LocalTime_def UTC_def)

lemma daily_end_bounds_differ:
  "endDate (Dashboard_handlePeriodChange tza now ''daily'' st) \<noteq>
   endDate (Sales_handlePeriodChange tza now ''daily'' st)"
proof
  let ?d = "newDate tza (getFullYear tza now) (getMonth tza now) (getDate tza now) 23 59 59 0"
  let ?s = "setHours tza (setHours tza now 0 0 0 0) 23 59 59 999"
  assume "endDate (Dashboard_handlePeriodChange tza now ''daily'' st) =
          endDate (Sales_handlePeriodChange tza now ''daily'' st)"
  then have "?d = ?s"
    by (simp add: Dashboard_handlePeriodChange_def Sales_handlePeriodChange_def Let_def)
  then have "TimeWithinDay (LocalTime tza ?d) = TimeWithinDay (LocalTime tza ?s)"
    by simp
  moreover have "TimeWithinDay (LocalTime tza ?d) = MakeTime 23 59 59 0"
    unfolding newDate_local by (rule Day_MakeDate) (simp_all add: MakeTime_def msPerDay_def)
  moreover have "TimeWithinDay (LocalTime tza ?s) = MakeTime 23 59 59 999"
    unfolding setHours_local [of tza "setHours tza now 0 0 0 0"]
    by (rule Day_MakeDate) (simp_all add: MakeTime_def msPerDay_def)
  ultimately show False
    by (simp add: MakeTime_def)
qed

lemma monthly_yearly_end_bounds_differ:
  "endDate (Dashboard_handlePeriodChange tza now ''monthly'' st) =
     Some (newDate tza (getFullYear tza now) (getMonth tza now + 1) 0 0 0 0 0 + 86399000)"
  "endDate (Sales_handlePeriodChange tza now ''monthly'' st) =
     Some (newDate tza (getFullYear tza now) (getMonth tza now + 1) 0 0 0 0 0)"
  "endDate (Dashboard_handlePeriodChange tza now ''yearly'' st) =
     Some (newDate tza (getFullYear tza now) 11 31 0 0 0 0 + 86399000)"
  "endDate (Sales_handlePeriodChange tza now ''yearly'' st) =
     Some (newDate tza (getFullYear tza now) 11 31 0 0 0 0)"
  by (simp_all add: Dashboard_handlePeriodChange_def Sales_handlePeriodChange_def Let_def
        newDate_def UTC_def MakeDate_def MakeTime_def)

lemma weekly_ranges_differ:
  "Dashboard_handlePeriodChange tza now ''weekly'' st \<noteq>
   Sales_handlePeriodChange tza now ''weekly'' st"
proof
  let ?tw = "TimeWithinDay (LocalTime tza now)"
  assume "Dashboard_handlePeriodChange tza now ''weekly'' st =
          Sales_handlePeriodChange tza now ''weekly'' st"
  then have "startDate (Dashboard_handlePeriodChange tza now ''weekly'' st) =
             startDate (Sales_handlePeriodChange tza now ''weekly'' st)"
            "endDate (Dashboard_handlePeriodChange tza now ''weekly'' st) =
             endDate (Sales_handlePeriodChange tza now ''weekly'' st)"
    by simp_all
  then have "MakeTime 0 0 0 0 = ?tw" "MakeTime 23 59 59 999 = ?tw"
    by (simp_all add: Dashboard_weekly_range Sales_weekly_range UTC_def MakeDate_def)
  then show False
    by (simp add: MakeTime_def)
qed

lemma resolvers_never_agree:
  "Dashboard_handlePeriodChange tza now ''daily'' st \<noteq> Sales_handlePeriodChange tza now ''daily'' st"
  "Dashboard_handlePeriodChange tza now ''weekly'' st \<noteq> Sales_handlePeriodChange tza now ''weekly'' st"
  "Dashboard_handlePeriodChange tza now ''monthly'' st \<noteq> Sales_handlePeriodChange tza now ''monthly'' st"
  "Dashboard_handlePeriodChange tza now ''yearly'' st \<noteq> Sales_handlePeriodChange tza now ''yearly'' st"
  "Dashboard_handlePeriodChange tza now ''all'' st = Sales_handlePeriodChange tza now ''all'' st"
proof -
  show "Dashboard_handlePeriodChange tza now ''daily'' st \<noteq> Sales_handlePeriodChange tza now ''daily'' st"
    using daily_end_bounds_differ [of tza now st] by auto
  show "Dashboard_handlePeriodChange tza now ''weekly'' st \<noteq> Sales_handlePeriodChange tza now ''weekly'' st"
    by (rule weekly_ranges_differ)
  show "Dashboard_handlePeriodChange tza now ''monthly'' st \<noteq> Sales_handlePeriodChange tza now ''monthly'' st"
    using monthly_yearly_end_bounds_differ(1,2) [of tza now st] by auto
  show "Dashboard_handlePeriodChange tza now ''yearly'' st \<noteq> Sales_handlePeriodChange tza now ''yearly'' st"
    using monthly_yearly_end_bounds_differ(3,4) [of tza now st] by auto
  show "Dashboard_handlePeriodChange tza now ''all'' st = Sales_handlePeriodChange tza now ''all'' st"
    by (simp add: Dashboard_handlePeriodChange_def Sales_handlePeriodChange_def)
qed

section \<open>Revenue percentages\<close>













end
